theory Spec2Isabelle
  imports Main "HOL-Library.Word" "HOL-Library.Log_Nat" "HOL-Library.Sublist"
begin

unbundle bit_operations_syntax

section \<open>The USBD480 framebuffer driver (usbd480fb.c)\<close>

text \<open>
  The driver is embedded function by function. Every call into the kernel appends one
  \<open>call\<close> to a trace, in program order; whatever the kernel answers (a return value, the
  contents of a filled buffer, an allocated address) is an argument of the model, so each
  function is a pure function of the session, the kernel state and the kernel's answers.

  C types: \<open>unsigned char\<close> is an 8-bit word, \<open>unsigned int\<close> and \<open>int\<close> are 32-bit words,
  \<open>unsigned long\<close> and pointers are 64-bit words (LP64). The return value of a USB
  transfer is only tested against zero and is kept as an \<open>int\<close>.
\<close>

type_synonym u8 = "8 word"
type_synonym u16 = "16 word"
type_synonym u32 = "32 word"
type_synonym ulong = "64 word"

subsection \<open>Constants of the driver and of the USB headers\<close>

definition USBD480_SET_ADDRESS :: u8 where "USBD480_SET_ADDRESS = 0xC0"
definition USBD480_SET_FRAME_START_ADDRESS :: u8 where "USBD480_SET_FRAME_START_ADDRESS = 0xC4"
definition USBD480_SET_BRIGHTNESS :: u8 where "USBD480_SET_BRIGHTNESS = 0x81"
definition USBD480_GET_DEVICE_DETAILS :: u8 where "USBD480_GET_DEVICE_DETAILS = 0x80"

definition USB_DIR_OUT :: u8 where "USB_DIR_OUT = 0"
definition USB_DIR_IN :: u8 where "USB_DIR_IN = 0x80"
definition USB_TYPE_VENDOR :: u8 where "USB_TYPE_VENDOR = 0x40"
definition USB_RECIP_INTERFACE :: u8 where "USB_RECIP_INTERFACE = 0x01"

definition ENOMEM :: int where "ENOMEM = 12"

text \<open>
  The kernel configuration: \<open>HZ\<close>, the page shift (\<open>PAGE_SIZE\<close> is \<open>1 << PAGE_SHIFT\<close>) and
  \<open>get_order\<close> are the kernel's and are parameters.
\<close>

record kconfig =
  HZ :: nat
  PAGE_SHIFT :: nat
  get_order :: "ulong \<Rightarrow> nat"

text \<open>
  \<open>USBD480_REFRESH_DELAY\<close> is the token sequence \<open>1000/100\<close>, so
  \<open>USBD480_REFRESH_JIFFIES\<close> expands to \<open>((1000/100 * HZ)/1000)\<close>.
\<close>

definition USBD480_REFRESH_JIFFIES :: "kconfig \<Rightarrow> nat" where
  "USBD480_REFRESH_JIFFIES cfg = (1000 div 100 * HZ cfg) div 1000"

subsection \<open>The session: \<open>struct usbd480\<close>\<close>

text \<open>
  \<open>struct fb_info\<close> is the framebuffer layer's; the record keeps the fields that the probe
  fills with values of the session (the remaining assignments store fixed flags).
\<close>

record fb_info =
  screen_base :: ulong
  screen_size :: ulong
  fix_line_length :: u32
  fix_smem_start :: ulong
  fix_smem_len :: u32
  var_xres :: u32
  var_yres :: u32
  var_xres_virtual :: u32
  var_yres_virtual :: u32
  var_bits_per_pixel :: u32
  var_red :: "nat \<times> nat"
  var_green :: "nat \<times> nat"
  var_blue :: "nat \<times> nat"
  pseudo_palette :: bool

record usbd480 =
  udev :: nat
  fbinfo :: "fb_info option"
  wq :: bool
  vmem :: ulong
  vmemsize :: ulong
  vmem_phys :: ulong
  disp_page :: u32
  brightness :: u8
  width :: u32
  height :: u32
  device_name :: "u8 list"

subsection \<open>Kernel calls and kernel state\<close>

datatype attr = Dev_attr_brightness | Dev_attr_width | Dev_attr_height | Dev_attr_name

datatype call =
    Control_msg u8 u8 u16 u16 nat nat
      \<comment> \<open>\<open>usb_control_msg\<close>: request, requesttype, value, index, size, timeout\<close>
  | Bulk_msg nat ulong u32 nat
      \<comment> \<open>\<open>usb_bulk_msg\<close>: endpoint, data, len (an \<open>int\<close>), timeout\<close>
  | Queue_delayed_work nat
  | Cancel_delayed_work_sync
  | Flush_workqueue
  | Destroy_workqueue
  | Create_singlethread_workqueue
  | Device_create_file attr
  | Device_remove_file attr
  | Kzalloc_dev
  | Kfree_dev
  | Kmalloc nat
  | Kfree_buffer
  | Get_free_pages nat
  | Free_pages ulong nat
  | Set_page_reserved ulong
  | Clear_page_reserved ulong
  | Memset ulong ulong
  | Framebuffer_alloc
  | Framebuffer_release
  | Kzalloc_palette
  | Kfree_palette
  | Fb_alloc_cmap
  | Fb_dealloc_cmap
  | Register_framebuffer
  | Unregister_framebuffer
  | Usb_get_dev
  | Usb_put_dev
  | Usb_set_intfdata bool
  | Dev_dbg int
  | Log string

text \<open>
  The kernel state the driver acts on: the attribute files present on the interface's
  device, the registered framebuffers, whether the delayed work is pending or running,
  and the trace of calls.
\<close>

record kernel =
  attrs :: "attr set"
  framebuffers :: "fb_info list"
  work_pending :: bool
  trace :: "call list"

definition emit :: "call \<Rightarrow> kernel \<Rightarrow> kernel" where
  "emit c k = k\<lparr>trace := trace k @ [c]\<rparr>"

text \<open>\<open>if (result) dev_dbg(..., "result = %d\n", result);\<close>\<close>

definition dbg_result :: "int \<Rightarrow> kernel \<Rightarrow> kernel" where
  "dbg_result result k = (if result \<noteq> 0 then emit (Dev_dbg result) k else k)"

text \<open>
  \<open>queue_delayed_work\<close> makes the work pending; \<open>cancel_delayed_work_sync\<close> returns
  only when the work is neither pending nor running, also for a work that requeues itself.
\<close>

definition queue_delayed_work :: "nat \<Rightarrow> kernel \<Rightarrow> kernel" where
  "queue_delayed_work delay k = (emit (Queue_delayed_work delay) k)\<lparr>work_pending := True\<rparr>"

definition cancel_delayed_work_sync :: "kernel \<Rightarrow> kernel" where
  "cancel_delayed_work_sync k = (emit Cancel_delayed_work_sync k)\<lparr>work_pending := False\<rparr>"

subsection \<open>The control channel\<close>

text \<open>
  In each function the first argument is what \<open>usb_control_msg\<close> returns. \<open>value\<close> and
  \<open>index\<close> are 16-bit parameters of \<open>usb_control_msg\<close>: \<open>addr\<close> and \<open>addr>>16\<close> are
  truncated to them.
\<close>

definition usbd480_set_brightness :: "int \<Rightarrow> u32 \<Rightarrow> kernel \<Rightarrow> int \<times> kernel" where
  "usbd480_set_brightness result level k =
     (let k = emit (Control_msg USBD480_SET_BRIGHTNESS
                      (USB_DIR_OUT OR USB_TYPE_VENDOR OR USB_RECIP_INTERFACE)
                      (ucast level) 0 0 1000) k;
          k = dbg_result result k
      in (0, k))"

definition usbd480_set_address :: "int \<Rightarrow> u32 \<Rightarrow> kernel \<Rightarrow> int \<times> kernel" where
  "usbd480_set_address result addr k =
     (let k = emit (Control_msg USBD480_SET_ADDRESS
                      (USB_DIR_OUT OR USB_TYPE_VENDOR OR USB_RECIP_INTERFACE)
                      (ucast addr) (ucast (drop_bit 16 addr)) 0 1000) k;
          k = dbg_result result k
      in (0, k))"

definition usbd480_set_frame_start_address :: "int \<Rightarrow> u32 \<Rightarrow> kernel \<Rightarrow> int \<times> kernel" where
  "usbd480_set_frame_start_address result addr k =
     (let k = emit (Control_msg USBD480_SET_FRAME_START_ADDRESS
                      (USB_DIR_OUT OR USB_TYPE_VENDOR OR USB_RECIP_INTERFACE)
                      (ucast addr) (ucast (drop_bit 16 addr)) 0 1000) k;
          k = dbg_result result k
      in (0, k))"

text \<open>
  \<open>strncpy(dest, src, n)\<close>: bytes are copied up to the first NUL or until \<open>n\<close> bytes are
  written, and the rest of the \<open>n\<close> bytes is filled with NUL. The second equation (the
  source ends before a NUL) does not arise for the 64-byte buffer and \<open>n = 20\<close>.
\<close>

fun strncpy :: "u8 list \<Rightarrow> nat \<Rightarrow> u8 list" where
  "strncpy src 0 = []"
| "strncpy [] (Suc n) = replicate (Suc n) 0"
| "strncpy (c # src) (Suc n) = (if c = 0 then replicate (Suc n) 0 else c # strncpy src n)"

text \<open>
  The answers of the kernel inside \<open>usbd480_get_device_details\<close>: whether \<open>kmalloc\<close>
  returned a buffer, the return value of \<open>usb_control_msg\<close>, and the 64 bytes the buffer
  holds after the call (the buffer is not initialised by \<open>kmalloc\<close>, so after a failed
  transfer these are whatever the memory held).
\<close>

record details_env =
  kmalloc_buffer :: bool
  details_result :: int
  details_buffer :: "u8 list"

definition usbd480_get_device_details ::
    "details_env \<Rightarrow> usbd480 \<times> kernel \<Rightarrow> int \<times> usbd480 \<times> kernel" where
  "usbd480_get_device_details e s =
     (case s of (dev, k) \<Rightarrow>
        let k = emit (Kmalloc 64) k in
        if \<not> kmalloc_buffer e then (0, dev, emit (Log ''out of memory'') k)
        else
          let buffer = details_buffer e;
              k = emit (Control_msg USBD480_GET_DEVICE_DETAILS
                          (USB_DIR_IN OR USB_TYPE_VENDOR OR USB_RECIP_INTERFACE)
                          0 0 64 1000) k;
              result = details_result e;
              k = dbg_result result k;
              dev = dev\<lparr>width := ucast (buffer ! 20) OR push_bit 8 (ucast (buffer ! 21))\<rparr>;
              dev = dev\<lparr>height := ucast (buffer ! 22) OR push_bit 8 (ucast (buffer ! 23))\<rparr>;
              dev = dev\<lparr>device_name := strncpy buffer 20\<rparr>;
              k = emit Kfree_buffer k
          in (0, dev, k))"

subsection \<open>The refresh work\<close>

text \<open>
  The kernel's answers in one run of the work function: the return values of the two
  control transfers and of the bulk transfer, and the count it stores in \<open>sentsize\<close>.
\<close>

record work_env =
  set_address_result :: int
  bulk_result :: int
  bulk_sentsize :: int
  set_frame_start_result :: int

text \<open>
  \<open>writeaddr\<close> and \<open>showaddr\<close> are \<open>int\<close>: \<open>d->vmemsize\<close> is truncated to 32 bits when it
  is assigned to them, and again in the \<open>int len\<close> parameter of \<open>usb_bulk_msg\<close>. The
  results of the three transfers are not looked at.
\<close>

definition usbd480fb_work ::
    "kconfig \<Rightarrow> work_env \<Rightarrow> usbd480 \<times> kernel \<Rightarrow> usbd480 \<times> kernel" where
  "usbd480fb_work cfg e s =
     (case s of (d, k) \<Rightarrow>
        let (writeaddr, showaddr, d) =
              (if disp_page d = 0
               then (0 :: u32, 0 :: u32, d\<lparr>disp_page := 1\<rparr>)
               else (ucast (vmemsize d), ucast (vmemsize d), d\<lparr>disp_page := 0\<rparr>));
            (_, k) = usbd480_set_address (set_address_result e) writeaddr k;
            k = emit (Bulk_msg 2 (vmem d) (ucast (vmemsize d)) 5000) k;
            (_, k) = usbd480_set_frame_start_address (set_frame_start_result e) showaddr k;
            k = queue_delayed_work (USBD480_REFRESH_JIFFIES cfg) k
        in (d, k))"

subsection \<open>The brightness attribute\<close>

text \<open>
  Modelled from the spec: \<open>simple_strtoul\<close> is the kernel's and not part of the driver. It
  accepts unsigned integer text: it reads digits of the given base from the start of the
  text, accumulating in an \<open>unsigned long\<close> with no range check, and stops at the first
  other character (the end of the list is the terminating NUL). The driver calls it with
  base 10, for which no prefix is skipped.
\<close>

definition digit_value :: "char \<Rightarrow> nat option" where
  "digit_value c =
     (let n = (of_char c :: nat) in
      if 48 \<le> n \<and> n \<le> 57 then Some (n - 48)
      else if 97 \<le> n \<and> n \<le> 102 then Some (n - 97 + 10)
      else if 65 \<le> n \<and> n \<le> 70 then Some (n - 65 + 10)
      else None)"

fun strtoul_digits :: "nat \<Rightarrow> ulong \<Rightarrow> string \<Rightarrow> ulong" where
  "strtoul_digits base result [] = result"
| "strtoul_digits base result (c # cp) =
     (case digit_value c of
        None \<Rightarrow> result
      | Some v \<Rightarrow>
          if v < base then strtoul_digits base (result * of_nat base + of_nat v) cp
          else result)"

definition simple_strtoul :: "string \<Rightarrow> nat \<Rightarrow> ulong" where
  "simple_strtoul cp base = strtoul_digits base 0 cp"

text \<open>
  The store function of the attribute. \<open>brightness\<close> is an \<open>int\<close>: the parsed value is
  truncated to 32 bits, then to the \<open>unsigned char\<close> field, and passed on as it is.
  The first argument is what \<open>usb_control_msg\<close> returns.
\<close>

definition set_brightness ::
    "int \<Rightarrow> string \<Rightarrow> nat \<Rightarrow> usbd480 \<times> kernel \<Rightarrow> nat \<times> usbd480 \<times> kernel" where
  "set_brightness result buf count s =
     (case s of (d, k) \<Rightarrow>
        let level = (ucast (simple_strtoul buf 10) :: u32);
            d = d\<lparr>brightness := ucast level\<rparr>;
            (_, k) = usbd480_set_brightness result level k
        in (count, d, k))"

subsection \<open>Attach: \<open>usbd480_probe\<close>\<close>

definition PAGE_SIZE :: "kconfig \<Rightarrow> nat" where
  "PAGE_SIZE cfg = 2 ^ PAGE_SHIFT cfg"

definition PAGE_ALIGN :: "kconfig \<Rightarrow> ulong \<Rightarrow> ulong" where
  "PAGE_ALIGN cfg a = (a + of_nat (PAGE_SIZE cfg) - 1) AND NOT (of_nat (PAGE_SIZE cfg) - 1)"

definition USBD480_VIDEOMEMORDER :: "kconfig \<Rightarrow> usbd480 \<Rightarrow> nat" where
  "USBD480_VIDEOMEMORDER cfg dev = get_order cfg (PAGE_ALIGN cfg (vmemsize dev))"

text \<open>
  The loop over the pages of the frame memory,
  \<open>while (size > 0) { ...(addr); addr += PAGE_SIZE; size -= PAGE_SIZE; }\<close>,
  returns the addresses it visits.
\<close>

function page_loop :: "nat \<Rightarrow> int \<Rightarrow> ulong \<Rightarrow> ulong list" where
  "page_loop shift sz addr =
     (if sz > 0 then addr # page_loop shift (sz - 2 ^ shift) (addr + 2 ^ shift) else [])"
  by pat_completeness auto
termination
  by (relation "measure (\<lambda>(shift, sz, addr). nat sz)") auto

definition vmem_pages :: "kconfig \<Rightarrow> usbd480 \<Rightarrow> ulong list" where
  "vmem_pages cfg dev =
     page_loop (PAGE_SHIFT cfg)
       (int (PAGE_SIZE cfg) * 2 ^ USBD480_VIDEOMEMORDER cfg dev) (vmem dev)"

definition emits :: "call list \<Rightarrow> kernel \<Rightarrow> kernel" where
  "emits cs k = k\<lparr>trace := trace k @ cs\<rparr>"

text \<open>
  \<open>device_create_file\<close> adds the attribute when it returns 0 (its return value is the
  first argument); \<open>device_remove_file\<close> removes it, present or not.
\<close>

definition device_create_file :: "int \<Rightarrow> attr \<Rightarrow> kernel \<Rightarrow> int \<times> kernel" where
  "device_create_file retval a k =
     (let k = emit (Device_create_file a) k
      in (retval, if retval = 0 then k\<lparr>attrs := insert a (attrs k)\<rparr> else k))"

definition device_remove_file :: "attr \<Rightarrow> kernel \<Rightarrow> kernel" where
  "device_remove_file a k = (emit (Device_remove_file a) k)\<lparr>attrs := attrs k - {a}\<rparr>"

definition register_framebuffer :: "int \<Rightarrow> fb_info \<Rightarrow> kernel \<Rightarrow> int \<times> kernel" where
  "register_framebuffer retval info k =
     (let k = emit Register_framebuffer k
      in (retval, if retval < 0 then k else k\<lparr>framebuffers := framebuffers k @ [info]\<rparr>))"

definition unregister_framebuffer :: "fb_info \<Rightarrow> kernel \<Rightarrow> kernel" where
  "unregister_framebuffer info k =
     (emit Unregister_framebuffer k)\<lparr>framebuffers := removeAll info (framebuffers k)\<rparr>"

text \<open>The kernel's answers during a probe, one per call.\<close>

record probe_env =
  kzalloc_dev :: bool
  create_file :: "attr \<Rightarrow> int"
  details :: details_env
  get_free_pages :: ulong
  virt_to_phys :: "ulong \<Rightarrow> ulong"
  framebuffer_alloc :: bool
  kzalloc_palette :: bool
  fb_alloc_cmap :: int
  register_fb :: int
  create_workqueue :: bool

text \<open>What \<open>kzalloc(sizeof(struct usbd480), GFP_KERNEL)\<close> returns: every field zero.\<close>

definition kzalloc_usbd480 :: usbd480 where
  "kzalloc_usbd480 =
     \<lparr>udev = 0, fbinfo = None, wq = False, vmem = 0, vmemsize = 0, vmem_phys = 0,
      disp_page = 0, brightness = 0, width = 0, height = 0, device_name = replicate 20 0\<rparr>"

text \<open>
  The error labels of the probe, last first; each falls through to the next one. The
  result is the return value, the session (none after a failure, where it has been
  freed) and the kernel state.
\<close>

definition error_dev :: "int \<Rightarrow> bool \<Rightarrow> kernel \<Rightarrow> int \<times> usbd480 option \<times> kernel" where
  "error_dev retval have_dev k =
     (let k = emit (Usb_set_intfdata False) k;
          k = (if have_dev then emit Kfree_dev k else k);
          k = emit (Log ''usbd480fb: error probe'') k
      in (retval, None, k))"

definition error_dev_attr :: "int \<Rightarrow> kernel \<Rightarrow> int \<times> usbd480 option \<times> kernel" where
  "error_dev_attr retval k =
     (let k = device_remove_file Dev_attr_brightness k;
          k = device_remove_file Dev_attr_width k;
          k = device_remove_file Dev_attr_height k;
          k = device_remove_file Dev_attr_name k
      in error_dev retval True k)"

definition error_vmem :: "int \<Rightarrow> kernel \<Rightarrow> int \<times> usbd480 option \<times> kernel" where
  "error_vmem retval k = error_dev_attr retval k"

definition error_fballoc ::
    "kconfig \<Rightarrow> int \<Rightarrow> usbd480 \<Rightarrow> kernel \<Rightarrow> int \<times> usbd480 option \<times> kernel" where
  "error_fballoc cfg retval dev k =
     (let k = emits (map Clear_page_reserved (vmem_pages cfg dev)) k;
          k = emit (Free_pages (vmem dev) (USBD480_VIDEOMEMORDER cfg dev)) k
      in error_vmem retval k)"

definition error_fbpseudopal ::
    "kconfig \<Rightarrow> int \<Rightarrow> usbd480 \<Rightarrow> kernel \<Rightarrow> int \<times> usbd480 option \<times> kernel" where
  "error_fbpseudopal cfg retval dev k = error_fballoc cfg retval dev (emit Framebuffer_release k)"

definition error_fballoccmap ::
    "kconfig \<Rightarrow> int \<Rightarrow> usbd480 \<Rightarrow> fb_info \<Rightarrow> kernel \<Rightarrow> int \<times> usbd480 option \<times> kernel" where
  "error_fballoccmap cfg retval dev info k =
     error_fbpseudopal cfg retval dev (if pseudo_palette info then emit Kfree_palette k else k)"

definition error_fbreg ::
    "kconfig \<Rightarrow> int \<Rightarrow> usbd480 \<Rightarrow> fb_info \<Rightarrow> kernel \<Rightarrow> int \<times> usbd480 option \<times> kernel" where
  "error_fbreg cfg retval dev info k = error_fballoccmap cfg retval dev info (emit Fb_dealloc_cmap k)"

definition error_wq ::
    "kconfig \<Rightarrow> int \<Rightarrow> usbd480 \<Rightarrow> fb_info \<Rightarrow> kernel \<Rightarrow> int \<times> usbd480 option \<times> kernel" where
  "error_wq cfg retval dev info k = error_fbreg cfg retval dev info (unregister_framebuffer info k)"

text \<open>
  The probe from the call of \<open>framebuffer_alloc\<close> on. \<open>retval\<close> is not assigned between
  the last \<open>device_create_file\<close> and \<open>error_fballoc\<close>, so it arrives here as an argument.
  \<open>line_length\<close> and \<open>smem_len\<close> are 32-bit fields.
\<close>

definition probe_framebuffer ::
    "kconfig \<Rightarrow> probe_env \<Rightarrow> int \<Rightarrow> usbd480 \<Rightarrow> kernel \<Rightarrow> int \<times> usbd480 option \<times> kernel" where
  "probe_framebuffer cfg e retval dev k =
     (let k = emit Framebuffer_alloc k in
      if \<not> framebuffer_alloc e
      then error_fballoc cfg retval dev (emit (Log ''error: framebuffer_alloc'') k)
      else
        let info = \<lparr>screen_base = vmem dev, screen_size = vmemsize dev,
                    fix_line_length = width dev * 16 div 8,
                    fix_smem_start = vmem_phys dev, fix_smem_len = ucast (vmemsize dev),
                    var_xres = width dev, var_yres = height dev,
                    var_xres_virtual = width dev, var_yres_virtual = height dev,
                    var_bits_per_pixel = 16,
                    var_red = (11, 5), var_green = (5, 6), var_blue = (0, 5),
                    pseudo_palette = False\<rparr>;
            k = emit Kzalloc_palette k;
            info = info\<lparr>pseudo_palette := kzalloc_palette e\<rparr>
        in
        if \<not> pseudo_palette info
        then error_fbpseudopal cfg (- ENOMEM) dev
               (emit (Log ''Failed to allocate pseudo_palette'') k)
        else
          let k = emit Fb_alloc_cmap k;
              retval = fb_alloc_cmap e
          in
          if retval < 0
          then error_fballoccmap cfg (- ENOMEM) dev info
                 (emit (Log ''Failed to allocate cmap'') k)
          else
            let (retval, k) = register_framebuffer (register_fb e) info k in
            if retval < 0
            then error_fbreg cfg retval dev info (emit (Log ''error: register_framebuffer'') k)
            else
              let dev = dev\<lparr>fbinfo := Some info\<rparr>;
                  dev = dev\<lparr>disp_page := 0\<rparr>;
                  k = emit Create_singlethread_workqueue k;
                  dev = dev\<lparr>wq := create_workqueue e\<rparr>
              in
              if \<not> wq dev
              then error_wq cfg (- ENOMEM) dev info
                     (emit (Log ''Could not create work queue'') k)
              else
                let k = queue_delayed_work (USBD480_REFRESH_JIFFIES cfg * 4) k;
                    k = emit (Log ''USBD480 framebuffer device'') k
                in (0, Some dev, k))"

text \<open>
  The discovery of the device details and the computation of the size of the frame
  memory (a product of \<open>unsigned int\<close>s, widened to \<open>unsigned long\<close>): the result is
  the session as it is when the frame memory is requested.
\<close>

definition probe_details :: "probe_env \<Rightarrow> usbd480 \<Rightarrow> kernel \<Rightarrow> usbd480 \<times> kernel" where
  "probe_details e dev k =
     (let k = emit (Log ''USBD480 attached'') k;
          (_, dev, k) = usbd480_get_device_details (details e) (dev, k);
          dev = dev\<lparr>vmemsize := ucast (width dev * height dev * 2)\<rparr>;
          dev = dev\<lparr>vmem := 0\<rparr>
      in (dev, k))"

text \<open>The probe from the discovery of the device details on.\<close>

definition probe_vmem ::
    "kconfig \<Rightarrow> probe_env \<Rightarrow> int \<Rightarrow> usbd480 \<Rightarrow> kernel \<Rightarrow> int \<times> usbd480 option \<times> kernel" where
  "probe_vmem cfg e retval dev k =
     (let (dev, k) = probe_details e dev k;
          k = emit (Get_free_pages (USBD480_VIDEOMEMORDER cfg dev)) k;
          dev = dev\<lparr>vmem := get_free_pages e\<rparr>
      in
      if vmem dev = 0
      then error_vmem (- ENOMEM) (emit (Log ''can not allocate vmem buffer'') k)
      else
        let k = emits (map Set_page_reserved (vmem_pages cfg dev)) k;
            dev = dev\<lparr>vmem_phys := virt_to_phys e (vmem dev)\<rparr>;
            k = emit (Memset (vmem dev) (vmemsize dev)) k
        in probe_framebuffer cfg e retval dev k)"

text \<open>The probe; \<open>usb_dev\<close> is the device of the interface.\<close>

definition usbd480_probe ::
    "kconfig \<Rightarrow> probe_env \<Rightarrow> nat \<Rightarrow> kernel \<Rightarrow> int \<times> usbd480 option \<times> kernel" where
  "usbd480_probe cfg e usb_dev k =
     (let k = emit Kzalloc_dev k in
      if \<not> kzalloc_dev e
      then error_dev (- ENOMEM) False (emit (Log ''Out of memory'') k)
      else
        let dev = kzalloc_usbd480;
            k = emit Usb_get_dev k;
            dev = dev\<lparr>udev := usb_dev\<rparr>;
            k = emit (Usb_set_intfdata True) k;
            (retval, k) = device_create_file (create_file e Dev_attr_brightness) Dev_attr_brightness k
        in
        if retval \<noteq> 0 then error_dev_attr retval k
        else
          let (retval, k) = device_create_file (create_file e Dev_attr_width) Dev_attr_width k in
          if retval \<noteq> 0 then error_dev_attr retval k
          else
            let (retval, k) = device_create_file (create_file e Dev_attr_height) Dev_attr_height k in
            if retval \<noteq> 0 then error_dev_attr retval k
            else
              let (retval, k) = device_create_file (create_file e Dev_attr_name) Dev_attr_name k in
              if retval \<noteq> 0 then error_dev_attr retval k
              else probe_vmem cfg e retval dev k)"

subsection \<open>Detach: \<open>usbd480_disconnect\<close>\<close>

definition usbd480_disconnect :: "kconfig \<Rightarrow> usbd480 \<Rightarrow> kernel \<Rightarrow> kernel" where
  "usbd480_disconnect cfg dev k =
     (let k = cancel_delayed_work_sync k;
          k = emit Flush_workqueue k;
          k = emit Destroy_workqueue k;
          k = device_remove_file Dev_attr_brightness k;
          k = device_remove_file Dev_attr_width k;
          k = device_remove_file Dev_attr_height k;
          k = device_remove_file Dev_attr_name k;
          k = (case fbinfo dev of
                 None \<Rightarrow> k
               | Some info \<Rightarrow>
                   let k = unregister_framebuffer info k;
                       k = emit Framebuffer_release k;
                       k = emits (map Clear_page_reserved (vmem_pages cfg dev)) k
                   in emit (Free_pages (vmem dev) (USBD480_VIDEOMEMORDER cfg dev)) k);
          k = emit (Usb_set_intfdata False) k;
          k = emit Usb_put_dev k;
          k = emit Kfree_dev k
      in emit (Log ''USBD480 disconnected'') k)"

subsection \<open>The scheduler\<close>

text \<open>
  The work function queues itself again at its end, so the workqueue runs it over and
  over, one run after the other. \<open>cycles\<close> lists the state at the start of each run and
  the state after the last one, given the kernel's answers for each run.
\<close>

fun cycles :: "kconfig \<Rightarrow> work_env list \<Rightarrow> usbd480 \<times> kernel \<Rightarrow> (usbd480 \<times> kernel) list" where
  "cycles cfg [] s = [s]"
| "cycles cfg (e # es) s = s # cycles cfg es (usbd480fb_work cfg e s)"

subsection \<open>Reading the trace\<close>

text \<open>The calls made between two kernel states.\<close>

definition new_calls :: "kernel \<Rightarrow> kernel \<Rightarrow> call list" where
  "new_calls k k' = drop (length (trace k)) (trace k')"

text \<open>The debug message after a transfer that returned \<open>result\<close>.\<close>

definition dbg_calls :: "int \<Rightarrow> call list" where
  "dbg_calls result = (if result \<noteq> 0 then [Dev_dbg result] else [])"

text \<open>
  The offset a control transfer carries, low half in \<open>value\<close> and high half in \<open>index\<close>,
  and the offsets of all the transfers of one request code in a list of calls.
\<close>

definition offset_of :: "u16 \<Rightarrow> u16 \<Rightarrow> u32" where
  "offset_of v i = push_bit 16 (ucast i) OR ucast v"

definition control_offsets :: "u8 \<Rightarrow> call list \<Rightarrow> u32 list" where
  "control_offsets rq cs =
     concat (map (\<lambda>c. case c of
                         Control_msg request rt v i sz t \<Rightarrow>
                           if request = rq then [offset_of v i] else []
                       | _ \<Rightarrow> []) cs)"

text \<open>The calls that free the frame memory or the session.\<close>

definition releases :: "call \<Rightarrow> bool" where
  "releases c = (case c of Free_pages a order \<Rightarrow> True | Kfree_dev \<Rightarrow> True | _ \<Rightarrow> False)"

subsection \<open>Unsigned integer text\<close>

text \<open>A decimal digit, and the number a text of decimal digits denotes.\<close>

definition isdigit :: "char \<Rightarrow> bool" where
  "isdigit c = (48 \<le> (of_char c :: nat) \<and> (of_char c :: nat) \<le> 57)"

definition decimal :: "string \<Rightarrow> nat" where
  "decimal ds = foldl (\<lambda>n c. n * 10 + (of_char c - 48)) 0 ds"

subsection \<open>A concrete device\<close>

text \<open>
  A kernel with 4 KiB pages and \<open>HZ = 1000\<close>, and a USBD480-LQ043 that answers the details
  request with its name and 480 x 272; every kernel call succeeds.
\<close>

definition kconfig0 :: kconfig where
  "kconfig0 =
     \<lparr>HZ = 1000, PAGE_SHIFT = 12,
      get_order = (\<lambda>sz. floorlog 2 (unat (sz - 1) div 4096))\<rparr>"

definition kernel0 :: kernel where
  "kernel0 = \<lparr>attrs = {}, framebuffers = [], work_pending = False, trace = []\<rparr>"

definition response0 :: "u8 list" where
  "response0 =
     map of_char ''USBD480-LQ043'' @ [0, 0, 0, 0, 0, 0, 0] @ [0xE0, 0x01, 0x10, 0x01] @
     replicate 40 0"

definition details_env0 :: details_env where
  "details_env0 = \<lparr>kmalloc_buffer = True, details_result = 64, details_buffer = response0\<rparr>"

definition probe_env0 :: probe_env where
  "probe_env0 =
     \<lparr>kzalloc_dev = True, create_file = (\<lambda>a. 0), details = details_env0,
      get_free_pages = 0xFFFF880012340000,
      virt_to_phys = (\<lambda>a. a - 0xFFFF880000000000),
      framebuffer_alloc = True, kzalloc_palette = True, fb_alloc_cmap = 0, register_fb = 0,
      create_workqueue = True\<rparr>"

definition fb_info0 :: fb_info where
  "fb_info0 =
     \<lparr>screen_base = 0xFFFF880012340000, screen_size = 261120, fix_line_length = 960,
      fix_smem_start = 0x12340000, fix_smem_len = 261120,
      var_xres = 480, var_yres = 272, var_xres_virtual = 480, var_yres_virtual = 272,
      var_bits_per_pixel = 16, var_red = (11, 5), var_green = (5, 6), var_blue = (0, 5),
      pseudo_palette = True\<rparr>"

text \<open>The session and the kernel state after the probe of this device.\<close>

definition session0 :: usbd480 where
  "session0 =
     \<lparr>udev = 7, fbinfo = Some fb_info0, wq = True, vmem = 0xFFFF880012340000,
      vmemsize = 261120, vmem_phys = 0x12340000, disp_page = 0, brightness = 0,
      width = 480, height = 272,
      device_name = map of_char ''USBD480-LQ043'' @ replicate 7 0\<rparr>"

definition kernel1 :: kernel where
  "kernel1 = snd (snd (usbd480_probe kconfig0 probe_env0 7 kernel0))"

text \<open>A run of the work in which every transfer succeeds, and one whose bulk transfer times out.\<close>

definition work_env0 :: work_env where
  "work_env0 =
     \<lparr>set_address_result = 0, bulk_result = 0, bulk_sentsize = 261120,
      set_frame_start_result = 0\<rparr>"

definition work_env_timeout :: work_env where
  "work_env_timeout =
     \<lparr>set_address_result = 0, bulk_result = - 110, bulk_sentsize = 0,
      set_frame_start_result = 0\<rparr>"


text \<open>
  A details request that times out (\<open>-ETIMEDOUT\<close> is -110) and leaves the buffer as
  \<open>kmalloc\<close> handed it out, here filled with the byte 0x6B.
\<close>

definition details_env_failed :: details_env where
  "details_env_failed =
     \<lparr>kmalloc_buffer = True, details_result = - 110, details_buffer = replicate 64 0x6B\<rparr>"

text \<open>
  The same device and kernel when \<open>__get_free_pages\<close> returns no memory, and when in
  addition the \<open>kmalloc\<close> of the details buffer fails.
\<close>

definition probe_env_no_pages :: probe_env where
  "probe_env_no_pages = probe_env0\<lparr>get_free_pages := 0\<rparr>"

definition probe_env_no_details :: probe_env where
  "probe_env_no_details =
     probe_env0
       \<lparr>details := \<lparr>kmalloc_buffer = False, details_result = 0, details_buffer = []\<rparr>,
        get_free_pages := 0\<rparr>"






section \<open>Properties\<close>

subsection \<open>Traces\<close>

lemma trace_emit [simp]: "trace (emit c k) = trace k @ [c]"
  by (simp add: emit_def)

lemma attrs_emit [simp]: "attrs (emit c k) = attrs k"
  by (simp add: emit_def)

lemma framebuffers_emit [simp]: "framebuffers (emit c k) = framebuffers k"
  by (simp add: emit_def)

lemma work_pending_emit [simp]: "work_pending (emit c k) = work_pending k"
  by (simp add: emit_def)

lemma trace_emits [simp]: "trace (emits cs k) = trace k @ cs"
  by (simp add: emits_def)

lemma trace_dbg_result [simp]: "trace (dbg_result r k) = trace k @ dbg_calls r"
  by (simp add: dbg_result_def dbg_calls_def)

lemma trace_queue_delayed_work [simp]:
  "trace (queue_delayed_work n k) = trace k @ [Queue_delayed_work n]"
  by (simp add: queue_delayed_work_def)

lemma new_calls_append: "trace k' = trace k @ cs \<Longrightarrow> new_calls k k' = cs"
  by (simp add: new_calls_def)

lemma trace_set_address:
  "trace (snd (usbd480_set_address r a k)) =
     trace k @
     Control_msg USBD480_SET_ADDRESS 0x41 (ucast a) (ucast (drop_bit 16 a)) 0 1000 # dbg_calls r"
  by (simp add: usbd480_set_address_def Let_def
      USB_DIR_OUT_def USB_TYPE_VENDOR_def USB_RECIP_INTERFACE_def)

lemma trace_set_frame_start_address:
  "trace (snd (usbd480_set_frame_start_address r a k)) =
     trace k @
     Control_msg USBD480_SET_FRAME_START_ADDRESS 0x41 (ucast a) (ucast (drop_bit 16 a)) 0 1000
       # dbg_calls r"
  by (simp add: usbd480_set_frame_start_address_def Let_def
      USB_DIR_OUT_def USB_TYPE_VENDOR_def USB_RECIP_INTERFACE_def)

text \<open>The two halves of a 32-bit offset put together again give the offset.\<close>

lemma offset_of_halves: "offset_of (ucast a) (ucast (drop_bit 16 a)) = a"
  unfolding offset_of_def by (rule bit_eqI) (auto simp add: bit_simps)

lemma control_offsets_Nil [simp]: "control_offsets rq [] = []"
  by (simp add: control_offsets_def)

lemma control_offsets_append [simp]:
  "control_offsets rq (cs @ cs') = control_offsets rq cs @ control_offsets rq cs'"
  by (simp add: control_offsets_def)

lemma control_offsets_Cons [simp]:
  "control_offsets rq (c # cs) =
     (case c of
        Control_msg request rt v i sz t \<Rightarrow> if request = rq then [offset_of v i] else []
      | _ \<Rightarrow> []) @ control_offsets rq cs"
  by (simp add: control_offsets_def)

lemma control_offsets_dbg_calls [simp]: "control_offsets rq (dbg_calls r) = []"
  by (simp add: control_offsets_def dbg_calls_def)

subsection \<open>The refresh work\<close>

lemma fst_work:
  "fst (usbd480fb_work cfg e (d, k)) = d\<lparr>disp_page := (if disp_page d = 0 then 1 else 0)\<rparr>"
  by (simp add: usbd480fb_work_def Let_def split_def)

lemma trace_work:
  "trace (snd (usbd480fb_work cfg e (d, k))) =
     trace k @
     (let off = (if disp_page d = 0 then 0 else ucast (vmemsize d) :: u32) in
      Control_msg USBD480_SET_ADDRESS 0x41 (ucast off) (ucast (drop_bit 16 off)) 0 1000
        # dbg_calls (set_address_result e) @
      Bulk_msg 2 (vmem d) (ucast (vmemsize d)) 5000 #
      Control_msg USBD480_SET_FRAME_START_ADDRESS 0x41 (ucast off) (ucast (drop_bit 16 off)) 0 1000
        # dbg_calls (set_frame_start_result e) @
      [Queue_delayed_work (USBD480_REFRESH_JIFFIES cfg)])"
  by (simp add: usbd480fb_work_def Let_def split_def
      trace_set_address trace_set_frame_start_address)

text \<open>
  C10. A run of the refresh work changes no field of the session but \<open>disp_page\<close>: the
  frame-memory pointer and size, width, height, device name and cached brightness (and
  every other field) are those before the run.
\<close>

theorem work_changes_disp_page_only:
  "fst (usbd480fb_work cfg e (d, k)) =
     d\<lparr>disp_page := (if disp_page d = 0 then 1 else 0)\<rparr>"
  by (simp add: usbd480fb_work_def Let_def split_def)


lemma control_offsets_work:
  "control_offsets rq (new_calls k (snd (usbd480fb_work cfg e (d, k)))) =
     (if rq = USBD480_SET_ADDRESS \<or> rq = USBD480_SET_FRAME_START_ADDRESS
      then [if disp_page d = 0 then 0 else ucast (vmemsize d)] else [])"
  by (simp add: new_calls_append [OF trace_work] Let_def offset_of_halves
      USBD480_SET_ADDRESS_def USBD480_SET_FRAME_START_ADDRESS_def)

subsection \<open>The probe\<close>

lemma error_dev_not_Some [simp]: "error_dev r h k \<noteq> (r', Some d, k')"
  by (simp add: error_dev_def Let_def)

lemma error_dev_attr_not_Some [simp]: "error_dev_attr r k \<noteq> (r', Some d, k')"
  by (simp add: error_dev_attr_def Let_def)

lemma error_vmem_not_Some [simp]: "error_vmem r k \<noteq> (r', Some d, k')"
  by (simp add: error_vmem_def)

lemma error_fballoc_not_Some [simp]: "error_fballoc cfg r dev k \<noteq> (r', Some d, k')"
  by (simp add: error_fballoc_def Let_def)

lemma error_fbpseudopal_not_Some [simp]: "error_fbpseudopal cfg r dev k \<noteq> (r', Some d, k')"
  by (simp add: error_fbpseudopal_def)

lemma error_fballoccmap_not_Some [simp]:
  "error_fballoccmap cfg r dev info k \<noteq> (r', Some d, k')"
  by (simp add: error_fballoccmap_def)

lemma error_fbreg_not_Some [simp]: "error_fbreg cfg r dev info k \<noteq> (r', Some d, k')"
  by (simp add: error_fbreg_def)

lemma error_wq_not_Some [simp]: "error_wq cfg r dev info k \<noteq> (r', Some d, k')"
  by (simp add: error_wq_def)

text \<open>
  A probe that hands back a session returns 0, and the session starts on page 0 with
  \<open>vmemsize\<close> the 32-bit product \<open>width * height * 2\<close>.
\<close>

lemma probe_framebuffer_Some:
  assumes "probe_framebuffer cfg e r dev k = (r', Some d, k')"
  shows "r' = 0 \<and> disp_page d = 0 \<and> vmemsize d = vmemsize dev \<and> width d = width dev \<and>
         height d = height dev \<and> vmem d = vmem dev"
  using assms
  by (auto simp: probe_framebuffer_def Let_def split_def split: if_splits)

lemma probe_details_vmemsize:
  "vmemsize (fst (probe_details e dev k)) =
     ucast (width (fst (probe_details e dev k)) * height (fst (probe_details e dev k)) * 2)"
  by (simp add: probe_details_def Let_def split_def)

lemma probe_vmem_Some:
  assumes "probe_vmem cfg e r dev k = (r', Some d, k')"
  shows "r' = 0 \<and> disp_page d = 0 \<and> vmemsize d = ucast (width d * height d * 2)"
proof -
  obtain dev1 k1 where pd: "probe_details e dev k = (dev1, k1)"
    by (cases "probe_details e dev k")
  have sz: "vmemsize dev1 = ucast (width dev1 * height dev1 * 2)"
    using probe_details_vmemsize [of e dev k] by (simp add: pd)
  from assms pd have nz: "get_free_pages e \<noteq> 0"
    by (auto simp: probe_vmem_def Let_def split: if_splits)
  with assms pd obtain dev2 k2 where
    fb: "probe_framebuffer cfg e r dev2 k2 = (r', Some d, k')" and
    d2: "vmemsize dev2 = vmemsize dev1" "width dev2 = width dev1" "height dev2 = height dev1"
    by (auto simp: probe_vmem_def Let_def)
  from probe_framebuffer_Some [OF fb] d2 sz show ?thesis by simp
qed

lemma usbd480_probe_Some:
  assumes "usbd480_probe cfg e u k = (r, Some d, k')"
  shows "r = 0 \<and> disp_page d = 0 \<and> vmemsize d = ucast (width d * height d * 2)"
proof -
  from assms obtain r1 dev1 k1 where "probe_vmem cfg e r1 dev1 k1 = (r, Some d, k')"
    by (auto simp: usbd480_probe_def Let_def split_def split: if_splits)
  then show ?thesis by (rule probe_vmem_Some)
qed

subsection \<open>The concrete device\<close>

lemma strncpy_numeral:
  "strncpy [] (numeral n) = replicate (numeral n) 0"
  "strncpy (c # src) (numeral n) =
     (if c = 0 then replicate (numeral n) 0 else c # strncpy src (pred_numeral n))"
  by (simp_all add: numeral_eq_Suc)

lemma details0:
  "usbd480_get_device_details details_env0 (dev, k) =
     (0, dev\<lparr>width := 480, height := 272,
              device_name := map of_char ''USBD480-LQ043'' @ replicate 7 0\<rparr>,
      emits [Kmalloc 64, Control_msg 0x80 0xC1 0 0 64 1000, Dev_dbg 64, Kfree_buffer] k)"
  by (simp add: usbd480_get_device_details_def details_env0_def response0_def Let_def
      dbg_result_def emit_def emits_def USBD480_GET_DEVICE_DETAILS_def
      USB_DIR_IN_def USB_TYPE_VENDOR_def USB_RECIP_INTERFACE_def nth_append
      strncpy_numeral)

lemma fst_device_create_file [simp]: "fst (device_create_file r a k) = r"
  by (simp add: device_create_file_def Let_def)

lemma probe0_session: "fst (snd (usbd480_probe kconfig0 probe_env0 7 kernel0)) = Some session0"
  by (simp add: usbd480_probe_def probe_vmem_def probe_details_def probe_framebuffer_def
      details0 probe_env0_def Let_def split_def kzalloc_usbd480_def session0_def fb_info0_def
      register_framebuffer_def)

lemma probe0_retval: "fst (usbd480_probe kconfig0 probe_env0 7 kernel0) = 0"
  by (simp add: usbd480_probe_def probe_vmem_def probe_details_def probe_framebuffer_def
      details0 probe_env0_def Let_def split_def kzalloc_usbd480_def register_framebuffer_def)

lemma probe0: "usbd480_probe kconfig0 probe_env0 7 kernel0 = (0, Some session0, kernel1)"
  using probe0_retval probe0_session unfolding kernel1_def by (metis prod.collapse)


subsection \<open>The page and the offset of a cycle\<close>

text \<open>
  C1, as the code has it. The offset of a cycle is computed from \<open>disp_page\<close> as it is at
  the start of the cycle, and \<open>disp_page\<close> is toggled in the same branch: a cycle that
  begins on page 0 passes offset 0 to \<open>usbd480_set_address\<close> and leaves the page at 1;
  a cycle that begins on any other page passes \<open>vmemsize\<close> (truncated to 32 bits) and
  leaves the page at 0.
\<close>

theorem work_offset_from_page_at_start:
  "control_offsets USBD480_SET_ADDRESS (new_calls k (snd (usbd480fb_work cfg e (d, k)))) =
     [if disp_page d = 0 then 0 else ucast (vmemsize d)] \<and>
   disp_page (fst (usbd480fb_work cfg e (d, k))) = (if disp_page d = 0 then 1 else 0)"
  by (simp add: control_offsets_work fst_work)

text \<open>
  C1 as stated fails: the first cycle of the 480 x 272 device begins on page 0 and its
  write address is 0, not the buffer size 261120.
\<close>

theorem work_offset_counterexample:
  "disp_page session0 = 0 \<and>
   control_offsets USBD480_SET_ADDRESS
     (new_calls kernel1 (snd (usbd480fb_work kconfig0 work_env0 (session0, kernel1)))) = [0] \<and>
   [0] \<noteq> [ucast (vmemsize session0) :: u32]"
  by (simp add: control_offsets_work session0_def)

lemma cycles_pages:
  "disp_page (fst s) = p \<Longrightarrow> p = 0 \<or> p = 1 \<Longrightarrow>
   map (\<lambda>s. disp_page (fst s)) (cycles cfg es s) =
     map (\<lambda>i. if even i then p else 1 - p) [0..<Suc (length es)]"
proof (induction es arbitrary: s p)
  case Nil
  then show ?case by simp
next
  case (Cons e es)
  obtain d k where s: "s = (d, k)" by (cases s)
  have next_page: "disp_page (fst (usbd480fb_work cfg e s)) = 1 - p"
    using Cons.prems by (auto simp: s fst_work)
  have "1 - p = 0 \<or> 1 - p = 1" using Cons.prems by auto
  from Cons.IH [OF next_page this]
  have "map (\<lambda>s. disp_page (fst s)) (cycles cfg (e # es) s) =
          p # map (\<lambda>i. if even i then 1 - p else 1 - (1 - p)) [0..<Suc (length es)]"
    using Cons.prems by (simp del: upt_Suc)
  also have "\<dots> = map (\<lambda>i. if even i then p else 1 - p) [0..<Suc (Suc (length es))]"
    by (subst (2) map_upt_Suc) (simp del: upt_Suc)
  finally show ?case by (simp del: upt_Suc cycles.simps)
qed

text \<open>
  C4. The probe leaves \<open>disp_page\<close> at 0 when it starts the work, and over any number of
  consecutive runs of the work the page at the start of the runs (and after the last
  one) reads 0, 1, 0, 1, ...: it is 0 before run \<open>i\<close> for even \<open>i\<close> and 1 for odd \<open>i\<close>,
  whatever the transfers return.
\<close>

theorem disp_page_alternates:
  assumes "usbd480_probe cfg pe usb_dev k0 = (r, Some d, k)"
  shows "map (\<lambda>s. disp_page (fst s)) (cycles cfg es (d, k)) =
           map (\<lambda>i. if even i then 0 else 1) [0..<Suc (length es)]"
  using cycles_pages [of "(d, k)" 0 cfg es] usbd480_probe_Some [OF assms] by simp

theorem disp_page_alternates_witness:
  "usbd480_probe kconfig0 probe_env0 7 kernel0 = (0, Some session0, kernel1) \<and>
   map (\<lambda>s. disp_page (fst s))
     (cycles kconfig0 [work_env0, work_env_timeout, work_env0, work_env0] (session0, kernel1)) =
     [0, 1, 0, 1, 0]"
  using disp_page_alternates [OF probe0, of "[work_env0, work_env_timeout, work_env0, work_env0]"]
  by (simp add: probe0 upt_conv_Cons del: upt_Suc)


subsection \<open>The steps of a cycle\<close>












subsection \<open>The device details\<close>

lemma strncpy_takeWhile:
  "strncpy src n =
     takeWhile (\<lambda>c. c \<noteq> 0) (take n src) @
     replicate (n - length (takeWhile (\<lambda>c. c \<noteq> 0) (take n src))) 0"
  by (induction src n rule: strncpy.induct) auto

lemma length_strncpy [simp]: "length (strncpy src n) = n"
  by (induction src n rule: strncpy.induct) auto

lemma le16_add:
  "(ucast (a::u8) :: u32) OR push_bit 8 (ucast (b::u8)) = ucast a + push_bit 8 (ucast b)"
  by (rule disjunctive_add [symmetric]) (auto simp: bit_simps dest: bit_imp_le_length)

lemma unat_ucast_u8_u32: "unat (ucast (a::u8) :: u32) = unat a"
proof -
  have "unat a < 2 ^ 8" using unsigned_less [of a, where ?'a = nat] by simp
  then show ?thesis by (simp add: unsigned_ucast_eq take_bit_eq_mod)
qed

lemma le16:
  "unat ((ucast (a::u8) :: u32) OR push_bit 8 (ucast (b::u8))) = unat a + 256 * unat b"
proof -
  have a: "unat a < 256" using unsigned_less [of a, where ?'a = nat] by simp
  have b: "unat b < 256" using unsigned_less [of b, where ?'a = nat] by simp
  have "unat (push_bit 8 (ucast b :: u32)) = 256 * unat b"
    using b by (simp add: push_bit_eq_mult unat_word_ariths unat_ucast_u8_u32)
  then show ?thesis
    using a b by (simp add: le16_add unat_word_ariths unat_ucast_u8_u32)
qed

lemma details_ok:
  "kmalloc_buffer e \<Longrightarrow>
   usbd480_get_device_details e (dev, k) =
     (0,
      dev\<lparr>width := ucast (details_buffer e ! 20) OR push_bit 8 (ucast (details_buffer e ! 21)),
          height := ucast (details_buffer e ! 22) OR push_bit 8 (ucast (details_buffer e ! 23)),
          device_name := strncpy (details_buffer e) 20\<rparr>,
      emits (Kmalloc 64 # Control_msg USBD480_GET_DEVICE_DETAILS 0xC1 0 0 64 1000 #
               dbg_calls (details_result e) @ [Kfree_buffer]) k)"
  by (simp add: usbd480_get_device_details_def Let_def dbg_result_def dbg_calls_def
      emit_def emits_def USB_DIR_IN_def USB_TYPE_VENDOR_def USB_RECIP_INTERFACE_def)

text \<open>
  C6. \<open>usbd480_get_device_details\<close> requests 64 bytes with \<open>USBD480_GET_DEVICE_DETAILS\<close>
  and reads the buffer: \<open>width\<close> is the little-endian 16-bit value in bytes 20 and 21,
  \<open>height\<close> the one in bytes 22 and 23, and \<open>device_name\<close> is the \<open>strncpy\<close> of the
  first 20 bytes: the bytes before the first NUL among them, filled up with NULs to 20
  bytes.
\<close>

theorem device_details_layout:
  assumes "kmalloc_buffer e" and "length (details_buffer e) = 64"
  shows "(case usbd480_get_device_details e (dev, k) of (r, dev', k') \<Rightarrow>
            Control_msg USBD480_GET_DEVICE_DETAILS 0xC1 0 0 64 1000 \<in> set (new_calls k k') \<and>
            unat (width dev') = unat (details_buffer e ! 20) + 256 * unat (details_buffer e ! 21) \<and>
            unat (height dev') = unat (details_buffer e ! 22) + 256 * unat (details_buffer e ! 23) \<and>
            device_name dev' = strncpy (take 20 (details_buffer e)) 20 \<and>
            length (device_name dev') = 20 \<and>
            device_name dev' =
              takeWhile (\<lambda>c. c \<noteq> 0) (take 20 (details_buffer e)) @
              replicate (20 - length (takeWhile (\<lambda>c. c \<noteq> 0) (take 20 (details_buffer e)))) 0)"
proof -
  let ?buf = "details_buffer e"
  have n1: "strncpy ?buf 20 = strncpy (take 20 ?buf) 20"
    by (simp add: strncpy_takeWhile)
  have n2: "strncpy ?buf 20 =
              takeWhile (\<lambda>c. c \<noteq> 0) (take 20 ?buf) @
              replicate (20 - length (takeWhile (\<lambda>c. c \<noteq> 0) (take 20 ?buf))) 0"
    by (rule strncpy_takeWhile)
  have n3: "length (strncpy ?buf 20) = 20"
    by (rule length_strncpy)
  show ?thesis
    unfolding details_ok [OF assms(1)] prod.case
    using n1 n2 n3 by (simp add: le16 new_calls_def del: length_strncpy)
qed


theorem device_details_layout_witness:
  "kmalloc_buffer details_env0 \<and> length (details_buffer details_env0) = 64 \<and>
   (case usbd480_get_device_details details_env0 (kzalloc_usbd480, kernel0) of (r, dev', k') \<Rightarrow>
      width dev' = 480 \<and> height dev' = 272 \<and>
      device_name dev' = map of_char ''USBD480-LQ043'' @ replicate 7 0)"
proof -
  have a: "kmalloc_buffer details_env0" by (simp add: details_env0_def)
  have b: "length (details_buffer details_env0) = 64"
    by (simp add: details_env0_def response0_def)
  have "unat (width (fst (snd (usbd480_get_device_details details_env0 (kzalloc_usbd480, kernel0)))))
          = 480"
    using device_details_layout [OF a b, where dev = kzalloc_usbd480 and k = kernel0]
    by (simp add: split_def details_env0_def response0_def nth_append)
  then show ?thesis
    using a b by (simp add: details0)
qed

text \<open>
  C3, as the code has it. A control transfer that fails is not fatal: the function logs
  the result with \<open>dev_dbg\<close> and returns 0. It does not leave the fields alone: width,
  height and name are assigned from the buffer as after a successful transfer, whatever
  the buffer holds.
\<close>


theorem details_failure_not_fatal:
  assumes "kmalloc_buffer e" and "length (details_buffer e) = 64" and "details_result e \<noteq> 0"
  shows "usbd480_get_device_details e (dev, k) =
           (0,
            dev\<lparr>width := ucast (details_buffer e ! 20) OR push_bit 8 (ucast (details_buffer e ! 21)),
                height := ucast (details_buffer e ! 22) OR push_bit 8 (ucast (details_buffer e ! 23)),
                device_name := strncpy (details_buffer e) 20\<rparr>,
            emits [Kmalloc 64, Control_msg USBD480_GET_DEVICE_DETAILS 0xC1 0 0 64 1000,
                   Dev_dbg (details_result e), Kfree_buffer] k)"
  using assms(3) by (simp add: details_ok [OF assms(1)] dbg_calls_def)

theorem details_failure_not_fatal_witness:
  "kmalloc_buffer details_env_failed \<and> length (details_buffer details_env_failed) = 64 \<and>
   details_result details_env_failed \<noteq> 0 \<and>
   fst (usbd480_get_device_details details_env_failed (session0, kernel1)) = 0 \<and>
   width (fst (snd (usbd480_get_device_details details_env_failed (session0, kernel1)))) = 0x6B6B \<and>
   new_calls kernel1 (snd (snd (usbd480_get_device_details details_env_failed (session0, kernel1)))) =
     [Kmalloc 64, Control_msg 0x80 0xC1 0 0 64 1000, Dev_dbg (- 110), Kfree_buffer]"
proof -
  have a: "kmalloc_buffer details_env_failed" by (simp add: details_env_failed_def)
  have b: "length (details_buffer details_env_failed) = 64" by (simp add: details_env_failed_def)
  have c: "details_result details_env_failed \<noteq> 0" by (simp add: details_env_failed_def)
  show ?thesis
    unfolding details_failure_not_fatal [OF a b c, where dev = session0 and k = kernel1]
    by (simp add: details_env_failed_def USBD480_GET_DEVICE_DETAILS_def new_calls_def)
qed


text \<open>
  C3 as stated fails: with width 480 and height 272 in the session, a transfer that times
  out over a buffer of bytes 0x6B leaves width and height at 0x6B6B = 27499.
\<close>

theorem details_failure_counterexample:
  "details_result details_env_failed \<noteq> 0 \<and>
   width session0 = 480 \<and> height session0 = 272 \<and>
   width (fst (snd (usbd480_get_device_details details_env_failed (session0, kernel1)))) = 27499 \<and>
   height (fst (snd (usbd480_get_device_details details_env_failed (session0, kernel1)))) = 27499"
  by (simp add: details_ok details_env_failed_def) (simp add: session0_def)



subsection \<open>The brightness attribute\<close>

lemma digit_value_isdigit: "isdigit c \<Longrightarrow> digit_value c = Some (of_char c - 48)"
  by (simp add: digit_value_def isdigit_def Let_def)

lemma digit_value_not_isdigit: "\<not> isdigit c \<Longrightarrow> digit_value c = Some v \<Longrightarrow> 10 \<le> v"
  by (auto simp: digit_value_def isdigit_def Let_def split: if_splits)

lemma strtoul_digits_stop:
  "(case rest of [] \<Rightarrow> True | c # _ \<Rightarrow> \<not> isdigit c) \<Longrightarrow> strtoul_digits 10 r rest = r"
  by (cases rest) (auto split: option.splits dest: digit_value_not_isdigit)

lemma strtoul_digits_decimal:
  "list_all isdigit ds \<Longrightarrow> (case rest of [] \<Rightarrow> True | c # _ \<Rightarrow> \<not> isdigit c) \<Longrightarrow>
   strtoul_digits 10 (of_nat a) (ds @ rest) =
     of_nat (foldl (\<lambda>n c. n * 10 + (of_char c - 48)) a ds)"
proof (induction ds arbitrary: a)
  case Nil
  then show ?case by (simp add: strtoul_digits_stop)
next
  case (Cons c ds)
  from Cons.prems have c: "isdigit c" and ds: "list_all isdigit ds" by simp_all
  have lt: "(of_char c :: nat) - 48 < 10" using c by (auto simp: isdigit_def)
  have "strtoul_digits 10 (of_nat a) ((c # ds) @ rest) =
          strtoul_digits 10 (of_nat (a * 10 + (of_char c - 48))) (ds @ rest)"
    using lt by (simp add: digit_value_isdigit [OF c])
  also have "\<dots> = of_nat (foldl (\<lambda>n c. n * 10 + (of_char c - 48)) (a * 10 + (of_char c - 48)) ds)"
    by (rule Cons.IH [OF ds Cons.prems(2)])
  finally show ?case by simp
qed

lemma simple_strtoul_decimal:
  "list_all isdigit ds \<Longrightarrow> (case rest of [] \<Rightarrow> True | c # _ \<Rightarrow> \<not> isdigit c) \<Longrightarrow>
   simple_strtoul (ds @ rest) 10 = of_nat (decimal ds)"
  using strtoul_digits_decimal [of ds rest 0] by (simp add: simple_strtoul_def decimal_def)

lemma ucast_of_nat_ulong_u32: "(ucast (of_nat n :: ulong) :: u32) = of_nat n"
  by (rule bit_word_eqI) (auto simp: bit_simps)

lemma ucast_of_nat_u32_u8: "(ucast (of_nat n :: u32) :: u8) = of_nat n"
  by (rule bit_word_eqI) (auto simp: bit_simps)

lemma ucast_of_nat_u32_u16: "(ucast (of_nat n :: u32) :: u16) = of_nat n"
  by (rule bit_word_eqI) (auto simp: bit_simps)

lemma set_brightness_decimal:
  assumes "list_all isdigit ds" and "case rest of [] \<Rightarrow> True | c # _ \<Rightarrow> \<not> isdigit c"
  shows "set_brightness result (ds @ rest) count (d, k) =
           (count, d\<lparr>brightness := of_nat (decimal ds)\<rparr>,
            emits (Control_msg USBD480_SET_BRIGHTNESS 0x41 (of_nat (decimal ds)) 0 0 1000
                     # dbg_calls result) k)"
  by (simp add: set_brightness_def usbd480_set_brightness_def Let_def
      simple_strtoul_decimal [OF assms] ucast_of_nat_ulong_u32 ucast_of_nat_u32_u8
      ucast_of_nat_u32_u16 dbg_result_def dbg_calls_def emit_def emits_def
      USB_DIR_OUT_def USB_TYPE_VENDOR_def USB_RECIP_INTERFACE_def)

lemma decimal_300: "decimal ''300'' = 300"
  by (simp add: decimal_def)

lemma isdigit_300: "list_all isdigit ''300''"
  by (simp add: isdigit_def)

text \<open>
  C7. A write to the brightness attribute of unsigned integer text (decimal digits, then
  the end of the text or any other character, such as the newline of \<open>echo\<close>) is never
  rejected: it returns \<open>count\<close>, stores the number modulo 256 in the \<open>unsigned char\<close>
  cache and sends the number (as the 16-bit \<open>value\<close>) in a \<open>USBD480_SET_BRIGHTNESS\<close> request,
  whatever the transfer returns. For the text 300 the cached value is 44: the value
  wraps, it is not clamped to 255.
\<close>

theorem set_brightness_wraps:
  assumes "list_all isdigit ds" and "case rest of [] \<Rightarrow> True | c # _ \<Rightarrow> \<not> isdigit c"
  shows "set_brightness result (ds @ rest) count (d, k) =
           (count, d\<lparr>brightness := of_nat (decimal ds)\<rparr>,
            emits (Control_msg USBD480_SET_BRIGHTNESS 0x41 (of_nat (decimal ds)) 0 0 1000
                     # dbg_calls result) k) \<and>
         unat (of_nat (decimal ds) :: u8) = decimal ds mod 256 \<and>
         brightness (fst (snd (set_brightness result ''300'' count (d, k)))) = 44 \<and>
         brightness (fst (snd (set_brightness result ''300'' count (d, k)))) \<noteq> 255"
proof -
  have "set_brightness result (''300'' @ []) count (d, k) =
           (count, d\<lparr>brightness := of_nat (decimal ''300'')\<rparr>,
            emits (Control_msg USBD480_SET_BRIGHTNESS 0x41 (of_nat (decimal ''300'')) 0 0 1000
                     # dbg_calls result) k)"
    by (rule set_brightness_decimal [OF isdigit_300]) simp
  then have "brightness (fst (snd (set_brightness result ''300'' count (d, k)))) = 44"
    by (simp add: decimal_300)
  then show ?thesis
    by (simp add: set_brightness_decimal [OF assms] unat_of_nat)
qed

theorem set_brightness_wraps_witness:
  "list_all isdigit ''300'' \<and> \<not> isdigit (CHR 0x0A) \<and>
   set_brightness (- 110) (''300'' @ [CHR 0x0A]) 4 (session0, kernel1) =
     (4, session0\<lparr>brightness := 44\<rparr>,
      emits [Control_msg 0x81 0x41 300 0 0 1000, Dev_dbg (- 110)] kernel1)"
proof -
  have a: "list_all isdigit ''300''" by (simp add: isdigit_def)
  have b: "case [CHR 0x0A] of [] \<Rightarrow> True | c # _ \<Rightarrow> \<not> isdigit c" by (simp add: isdigit_def)
  have "set_brightness (- 110) (''300'' @ [CHR 0x0A]) 4 (session0, kernel1) =
     (4, session0\<lparr>brightness := 44\<rparr>,
      emits [Control_msg 0x81 0x41 300 0 0 1000, Dev_dbg (- 110)] kernel1)"
    using set_brightness_wraps [OF a b, where result = "- 110" and count = 4 and d = session0 and k = kernel1]
    by (simp add: decimal_300 dbg_calls_def USBD480_SET_BRIGHTNESS_def)
  with a b show ?thesis by simp
qed


subsection \<open>The unwind of a probe that gets no frame memory\<close>

lemma attrs_minus_all:
  "A - {Dev_attr_brightness} - {Dev_attr_width} - {Dev_attr_height} - {Dev_attr_name} = {}"
proof -
  have "a \<in> {Dev_attr_brightness, Dev_attr_width, Dev_attr_height, Dev_attr_name}" for a
    by (cases a) simp_all
  then show ?thesis by blast
qed

lemma attrs_device_remove_file [simp]: "attrs (device_remove_file a k) = attrs k - {a}"
  by (simp add: device_remove_file_def)

lemma framebuffers_device_remove_file [simp]:
  "framebuffers (device_remove_file a k) = framebuffers k"
  by (simp add: device_remove_file_def)

lemma trace_device_remove_file [simp]:
  "trace (device_remove_file a k) = trace k @ [Device_remove_file a]"
  by (simp add: device_remove_file_def)

lemma framebuffers_device_create_file [simp]:
  "framebuffers (snd (device_create_file r a k)) = framebuffers k"
  by (simp add: device_create_file_def Let_def)

lemma trace_device_create_file [simp]:
  "trace (snd (device_create_file r a k)) = trace k @ [Device_create_file a]"
  by (simp add: device_create_file_def Let_def)

lemma error_dev_eq:
  "error_dev r h k =
     (r, None, emits (Usb_set_intfdata False # (if h then [Kfree_dev] else []) @
                      [Log ''usbd480fb: error probe'']) k)"
  by (simp add: error_dev_def Let_def emit_def emits_def)

lemma attrs_emits [simp]: "attrs (emits cs k) = attrs k"
  by (simp add: emits_def)

lemma framebuffers_emits [simp]: "framebuffers (emits cs k) = framebuffers k"
  by (simp add: emits_def)

lemma error_dev_attr_result:
  "error_dev_attr r k = (r', s, k') \<Longrightarrow>
   r' = r \<and> s = None \<and> attrs k' = {} \<and> framebuffers k' = framebuffers k \<and>
   trace k' = trace k @
     [Device_remove_file Dev_attr_brightness, Device_remove_file Dev_attr_width,
      Device_remove_file Dev_attr_height, Device_remove_file Dev_attr_name,
      Usb_set_intfdata False, Kfree_dev, Log ''usbd480fb: error probe'']"
  by (auto simp: error_dev_attr_def error_dev_eq Let_def attrs_minus_all)

lemma attrs_probe_details [simp]: "attrs (snd (probe_details e dev k)) = attrs k"
  by (simp add: probe_details_def usbd480_get_device_details_def Let_def split_def dbg_result_def)

lemma framebuffers_probe_details [simp]:
  "framebuffers (snd (probe_details e dev k)) = framebuffers k"
  by (simp add: probe_details_def usbd480_get_device_details_def Let_def split_def dbg_result_def)

lemma probe_vmem_no_pages:
  assumes "get_free_pages e = 0"
  shows "probe_vmem cfg e r dev k =
           error_dev_attr (- ENOMEM)
             (emit (Log ''can not allocate vmem buffer'')
               (emit (Get_free_pages (USBD480_VIDEOMEMORDER cfg (fst (probe_details e dev k))))
                 (snd (probe_details e dev k))))"
  by (simp add: probe_vmem_def Let_def split_def assms error_vmem_def)

lemma probe_reaches_vmem:
  assumes "kzalloc_dev e" and "\<forall>a. create_file e a = 0"
  shows "usbd480_probe cfg e usb_dev k =
           probe_vmem cfg e 0 (kzalloc_usbd480\<lparr>udev := usb_dev\<rparr>)
             (snd (device_create_file 0 Dev_attr_name
               (snd (device_create_file 0 Dev_attr_height
                 (snd (device_create_file 0 Dev_attr_width
                   (snd (device_create_file 0 Dev_attr_brightness
                     (emit (Usb_set_intfdata True) (emit Usb_get_dev (emit Kzalloc_dev k)))))))))))"
  using assms by (simp add: usbd480_probe_def Let_def split_def)

lemma prefix_trace_probe_details [simp]:
  "prefix (trace k0) (trace k) \<Longrightarrow> prefix (trace k0) (trace (snd (probe_details e dev k)))"
  by (auto simp: probe_details_def usbd480_get_device_details_def Let_def split_def dbg_result_def
      prefix_def)

text \<open>
  C8. When the probe has created its attribute files and \<open>__get_free_pages\<close> returns no
  memory, it returns \<open>-ENOMEM\<close> without a session; all four attribute files are removed, so
  no attribute entry is left on the interface, and the registered framebuffers are those
  from before the probe: none was added.
\<close>

theorem vmem_failure_unwinds:
  assumes "kzalloc_dev e" and "\<forall>a. create_file e a = 0" and "get_free_pages e = 0"
  shows "(case usbd480_probe cfg e usb_dev k of (r, s, k') \<Rightarrow>
            r = - ENOMEM \<and> s = None \<and> attrs k' = {} \<and> framebuffers k' = framebuffers k \<and>
            set (map Device_remove_file
                   [Dev_attr_brightness, Dev_attr_width, Dev_attr_height, Dev_attr_name])
              \<subseteq> set (new_calls k k'))"
proof -
  obtain r s k' where p: "usbd480_probe cfg e usb_dev k = (r, s, k')"
    by (cases "usbd480_probe cfg e usb_dev k")
  let ?k1 = "snd (device_create_file 0 Dev_attr_name
               (snd (device_create_file 0 Dev_attr_height
                 (snd (device_create_file 0 Dev_attr_width
                   (snd (device_create_file 0 Dev_attr_brightness
                     (emit (Usb_set_intfdata True) (emit Usb_get_dev (emit Kzalloc_dev k))))))))))"
  let ?dev = "kzalloc_usbd480\<lparr>udev := usb_dev\<rparr>"
  let ?k2 = "emit (Log ''can not allocate vmem buffer'')
               (emit (Get_free_pages (USBD480_VIDEOMEMORDER cfg (fst (probe_details e ?dev ?k1))))
                 (snd (probe_details e ?dev ?k1)))"
  have "error_dev_attr (- ENOMEM) ?k2 = (r, s, k')"
    using p by (simp add: probe_reaches_vmem [OF assms(1,2)] probe_vmem_no_pages [OF assms(3)])
  from error_dev_attr_result [OF this]
  have r: "r = - ENOMEM" "s = None" "attrs k' = {}" "framebuffers k' = framebuffers ?k2"
    and t: "trace k' = trace ?k2 @
     [Device_remove_file Dev_attr_brightness, Device_remove_file Dev_attr_width,
      Device_remove_file Dev_attr_height, Device_remove_file Dev_attr_name,
      Usb_set_intfdata False, Kfree_dev, Log ''usbd480fb: error probe'']"
    by simp_all
  have "prefix (trace k) (trace ?k1)"
    by (simp add: prefix_def)
  then have "prefix (trace k) (trace (snd (probe_details e ?dev ?k1)))"
    by (rule prefix_trace_probe_details)
  then obtain cs0 where "trace (snd (probe_details e ?dev ?k1)) = trace k @ cs0"
    unfolding prefix_def by blast
  then obtain cs where cs: "trace ?k2 = trace k @ cs"
    by simp
  have n: "new_calls k k' = cs @
     [Device_remove_file Dev_attr_brightness, Device_remove_file Dev_attr_width,
      Device_remove_file Dev_attr_height, Device_remove_file Dev_attr_name,
      Usb_set_intfdata False, Kfree_dev, Log ''usbd480fb: error probe'']"
    by (rule new_calls_append) (simp only: t cs append_assoc)
  have f: "framebuffers ?k2 = framebuffers k" by simp
  show ?thesis
    unfolding p prod.case using r(1-3) f r(4) by (simp add: n)
qed

theorem vmem_failure_unwinds_witness:
  "kzalloc_dev probe_env_no_pages \<and> (\<forall>a. create_file probe_env_no_pages a = 0) \<and>
   get_free_pages probe_env_no_pages = 0 \<and>
   fst (usbd480_probe kconfig0 probe_env_no_pages 7 kernel0) = - 12 \<and>
   fst (snd (usbd480_probe kconfig0 probe_env_no_pages 7 kernel0)) = None \<and>
   attrs (snd (snd (usbd480_probe kconfig0 probe_env_no_pages 7 kernel0))) = {} \<and>
   framebuffers (snd (snd (usbd480_probe kconfig0 probe_env_no_pages 7 kernel0))) = []"
proof -
  have a: "kzalloc_dev probe_env_no_pages"
    by (simp add: probe_env_no_pages_def probe_env0_def)
  have b: "\<forall>a. create_file probe_env_no_pages a = 0"
    by (simp add: probe_env_no_pages_def probe_env0_def)
  have c: "get_free_pages probe_env_no_pages = 0"
    by (simp add: probe_env_no_pages_def)
  show ?thesis
    using vmem_failure_unwinds [OF a b c, where cfg = kconfig0 and usb_dev = 7 and k = kernel0] a b c
    by (simp add: split_def ENOMEM_def) (simp add: kernel0_def)
qed

subsection \<open>The request for the frame memory\<close>

lemma prefix_emit [simp]: "prefix xs (trace k) \<Longrightarrow> prefix xs (trace (emit c k))"
  by (simp add: prefix_def) auto

lemma prefix_emits [simp]: "prefix xs (trace k) \<Longrightarrow> prefix xs (trace (emits cs k))"
  by (simp add: prefix_def) auto

lemma prefix_device_remove_file [simp]:
  "prefix xs (trace k) \<Longrightarrow> prefix xs (trace (device_remove_file a k))"
  by (simp add: prefix_def) auto

lemma trace_unregister_framebuffer [simp]:
  "trace (unregister_framebuffer info k) = trace k @ [Unregister_framebuffer]"
  by (simp add: unregister_framebuffer_def)

lemma trace_register_framebuffer [simp]:
  "trace (snd (register_framebuffer r info k)) = trace k @ [Register_framebuffer]"
  by (simp add: register_framebuffer_def Let_def)

lemma prefix_snoc_trace: "prefix xs ys \<Longrightarrow> prefix xs (ys @ zs)"
  by (simp add: prefix_def) auto

lemma prefix_error_dev [simp]:
  "prefix xs (trace k) \<Longrightarrow> prefix xs (trace (snd (snd (error_dev r h k))))"
  by (simp add: error_dev_def Let_def)

lemma prefix_error_dev_attr [simp]:
  "prefix xs (trace k) \<Longrightarrow> prefix xs (trace (snd (snd (error_dev_attr r k))))"
  by (simp add: error_dev_attr_def Let_def)

lemma prefix_error_vmem [simp]:
  "prefix xs (trace k) \<Longrightarrow> prefix xs (trace (snd (snd (error_vmem r k))))"
  by (simp add: error_vmem_def)

lemma prefix_error_fballoc [simp]:
  "prefix xs (trace k) \<Longrightarrow> prefix xs (trace (snd (snd (error_fballoc cfg r dev k))))"
  by (simp add: error_fballoc_def Let_def)

lemma prefix_error_fbpseudopal [simp]:
  "prefix xs (trace k) \<Longrightarrow> prefix xs (trace (snd (snd (error_fbpseudopal cfg r dev k))))"
  by (simp add: error_fbpseudopal_def)

lemma prefix_error_fballoccmap [simp]:
  "prefix xs (trace k) \<Longrightarrow> prefix xs (trace (snd (snd (error_fballoccmap cfg r dev info k))))"
  by (simp add: error_fballoccmap_def)

lemma prefix_error_fbreg [simp]:
  "prefix xs (trace k) \<Longrightarrow> prefix xs (trace (snd (snd (error_fbreg cfg r dev info k))))"
  by (simp add: error_fbreg_def)

lemma prefix_error_wq [simp]:
  "prefix xs (trace k) \<Longrightarrow> prefix xs (trace (snd (snd (error_wq cfg r dev info k))))"
  by (simp add: error_wq_def prefix_snoc_trace)

lemma prefix_probe_framebuffer [simp]:
  "prefix xs (trace k) \<Longrightarrow> prefix xs (trace (snd (snd (probe_framebuffer cfg e r dev k))))"
  by (simp add: probe_framebuffer_def Let_def split_def prefix_snoc_trace)

lemma prefix_after_get_free_pages:
  "prefix (trace (snd (probe_details e dev k)) @
            [Get_free_pages (USBD480_VIDEOMEMORDER cfg (fst (probe_details e dev k)))])
     (trace (snd (snd (probe_vmem cfg e r dev k))))"
  by (simp add: probe_vmem_def Let_def split_def)


lemma fst_probe_details:
  "fst (probe_details e dev k) =
     (if kmalloc_buffer (details e)
      then dev\<lparr>width := ucast (details_buffer (details e) ! 20) OR
                         push_bit 8 (ucast (details_buffer (details e) ! 21)),
               height := ucast (details_buffer (details e) ! 22) OR
                         push_bit 8 (ucast (details_buffer (details e) ! 23)),
               device_name := strncpy (details_buffer (details e)) 20,
               vmemsize :=
                 ucast ((ucast (details_buffer (details e) ! 20) OR
                           push_bit 8 (ucast (details_buffer (details e) ! 21))) *
                        (ucast (details_buffer (details e) ! 22) OR
                           push_bit 8 (ucast (details_buffer (details e) ! 23))) * 2 :: u32),
               vmem := 0\<rparr>
      else dev\<lparr>vmemsize := ucast (width dev * height dev * 2), vmem := 0\<rparr>)"
  by (simp add: probe_details_def usbd480_get_device_details_def Let_def)

lemma probe_requests_pages:
  assumes "kzalloc_dev e" and "\<forall>a. create_file e a = 0"
  shows "Get_free_pages
           (USBD480_VIDEOMEMORDER cfg (fst (probe_details e (kzalloc_usbd480\<lparr>udev := usb_dev\<rparr>) k)))
         \<in> set (new_calls k (snd (snd (usbd480_probe cfg e usb_dev k))))"
proof -
  let ?dev = "kzalloc_usbd480\<lparr>udev := usb_dev\<rparr>"
  let ?k1 = "snd (device_create_file 0 Dev_attr_name
               (snd (device_create_file 0 Dev_attr_height
                 (snd (device_create_file 0 Dev_attr_width
                   (snd (device_create_file 0 Dev_attr_brightness
                     (emit (Usb_set_intfdata True) (emit Usb_get_dev (emit Kzalloc_dev k))))))))))"
  let ?g = "Get_free_pages (USBD480_VIDEOMEMORDER cfg (fst (probe_details e ?dev k)))"
  have same: "fst (probe_details e ?dev ?k1) = fst (probe_details e ?dev k)"
    by (simp only: fst_probe_details)
  have "prefix (trace k) (trace ?k1)"
    by (simp add: prefix_def)
  then have "prefix (trace k) (trace (snd (probe_details e ?dev ?k1)))"
    by (rule prefix_trace_probe_details)
  then obtain cs0 where cs0: "trace (snd (probe_details e ?dev ?k1)) = trace k @ cs0"
    unfolding prefix_def by blast
  have "prefix (trace (snd (probe_details e ?dev ?k1)) @ [?g])
          (trace (snd (snd (usbd480_probe cfg e usb_dev k))))"
    using prefix_after_get_free_pages [of e ?dev ?k1 cfg 0]
    by (simp only: probe_reaches_vmem [OF assms] same)
  then obtain cs1 where
    "trace (snd (snd (usbd480_probe cfg e usb_dev k))) = trace k @ cs0 @ ?g # cs1"
    unfolding prefix_def cs0 by auto
  from new_calls_append [OF this] show ?thesis by simp
qed

text \<open>
  C2, as the code has it. Once the session and its attribute files exist, the probe
  computes \<open>vmemsize\<close> as the 32-bit product \<open>width * height * 2\<close> and calls
  \<open>__get_free_pages\<close> for it, whatever width and height are; nothing checks them. They are
  the values read from bytes 20..23 of the details buffer or, when that buffer could not
  be allocated, the zeros of \<open>kzalloc\<close>, and then the size is 0. (The session that
  \<open>probe_details\<close> returns does not depend on the kernel state it is given.)
\<close>

theorem allocation_not_guarded:
  assumes "kzalloc_dev e" and "\<forall>a. create_file e a = 0"
  shows "(let dev = fst (probe_details e (kzalloc_usbd480\<lparr>udev := usb_dev\<rparr>) k) in
            Get_free_pages (USBD480_VIDEOMEMORDER cfg dev)
              \<in> set (new_calls k (snd (snd (usbd480_probe cfg e usb_dev k)))) \<and>
            vmemsize dev = ucast (width dev * height dev * 2) \<and>
            (if kmalloc_buffer (details e)
             then width dev = ucast (details_buffer (details e) ! 20) OR
                              push_bit 8 (ucast (details_buffer (details e) ! 21)) \<and>
                  height dev = ucast (details_buffer (details e) ! 22) OR
                               push_bit 8 (ucast (details_buffer (details e) ! 23))
             else width dev = 0 \<and> height dev = 0 \<and> vmemsize dev = 0))"
  using probe_requests_pages [OF assms, of cfg usb_dev k]
  by (simp add: Let_def) (simp add: fst_probe_details kzalloc_usbd480_def)

theorem allocation_not_guarded_witness:
  "kzalloc_dev probe_env0 \<and> (\<forall>a. create_file probe_env0 a = 0) \<and>
   Get_free_pages (USBD480_VIDEOMEMORDER kconfig0 (session0\<lparr>fbinfo := None, wq := False, vmem := 0, vmem_phys := 0\<rparr>))
     \<in> set (new_calls kernel0 kernel1) \<and>
   vmemsize session0 = ucast (width session0 * height session0 * 2)"
proof -
  have a: "kzalloc_dev probe_env0" by (simp add: probe_env0_def)
  have b: "\<forall>a. create_file probe_env0 a = 0" by (simp add: probe_env0_def)
  have d: "fst (probe_details probe_env0 (kzalloc_usbd480\<lparr>udev := 7\<rparr>) kernel0) =
           session0\<lparr>fbinfo := None, wq := False, vmem := 0, vmem_phys := 0\<rparr>"
    by (simp add: probe_details_def details0 probe_env0_def Let_def kzalloc_usbd480_def session0_def)
  have "Get_free_pages (USBD480_VIDEOMEMORDER kconfig0 (session0\<lparr>fbinfo := None, wq := False, vmem := 0, vmem_phys := 0\<rparr>))
     \<in> set (new_calls kernel0 kernel1)"
    using allocation_not_guarded [OF a b, where cfg = kconfig0 and usb_dev = 7 and k = kernel0]
    by (simp add: Let_def d kernel1_def)
  moreover have "vmemsize session0 = ucast (width session0 * height session0 * 2)"
    by (simp add: session0_def)
  ultimately show ?thesis using a b by (intro conjI)
qed

text \<open>
  C2 as stated fails: when the \<open>kmalloc\<close> of the details buffer fails, width, height and
  the size are 0 and the frame memory is requested all the same.
\<close>

theorem allocation_not_guarded_counterexample:
  "\<not> kmalloc_buffer (details probe_env_no_details) \<and>
   width (fst (probe_details probe_env_no_details (kzalloc_usbd480\<lparr>udev := 7\<rparr>) kernel0)) = 0 \<and>
   height (fst (probe_details probe_env_no_details (kzalloc_usbd480\<lparr>udev := 7\<rparr>) kernel0)) = 0 \<and>
   vmemsize (fst (probe_details probe_env_no_details (kzalloc_usbd480\<lparr>udev := 7\<rparr>) kernel0)) = 0 \<and>
   Get_free_pages
     (USBD480_VIDEOMEMORDER kconfig0
        (fst (probe_details probe_env_no_details (kzalloc_usbd480\<lparr>udev := 7\<rparr>) kernel0)))
     \<in> set (new_calls kernel0 (snd (snd (usbd480_probe kconfig0 probe_env_no_details 7 kernel0))))"
proof -
  have a: "kzalloc_dev probe_env_no_details"
    by (simp add: probe_env_no_details_def probe_env0_def)
  have b: "\<forall>a. create_file probe_env_no_details a = 0"
    by (simp add: probe_env_no_details_def probe_env0_def)
  have c: "\<not> kmalloc_buffer (details probe_env_no_details)"
    by (simp add: probe_env_no_details_def)
  show ?thesis
    using probe_requests_pages [OF a b, of kconfig0 7 kernel0] c
    by (simp add: fst_probe_details kzalloc_usbd480_def)
qed


subsection \<open>Detach\<close>

lemma trace_cancel_delayed_work_sync [simp]:
  "trace (cancel_delayed_work_sync k) = trace k @ [Cancel_delayed_work_sync]"
  by (simp add: cancel_delayed_work_sync_def)

lemma work_pending_cancel_delayed_work_sync [simp]:
  "\<not> work_pending (cancel_delayed_work_sync k)"
  by (simp add: cancel_delayed_work_sync_def)

lemma work_pending_emits [simp]: "work_pending (emits cs k) = work_pending k"
  by (simp add: emits_def)

lemma work_pending_device_remove_file [simp]:
  "work_pending (device_remove_file a k) = work_pending k"
  by (simp add: device_remove_file_def)

lemma work_pending_unregister_framebuffer [simp]:
  "work_pending (unregister_framebuffer info k) = work_pending k"
  by (simp add: unregister_framebuffer_def)

lemma trace_disconnect:
  "trace (usbd480_disconnect cfg dev k) =
     trace k @
     [Cancel_delayed_work_sync, Flush_workqueue, Destroy_workqueue,
      Device_remove_file Dev_attr_brightness, Device_remove_file Dev_attr_width,
      Device_remove_file Dev_attr_height, Device_remove_file Dev_attr_name] @
     (case fbinfo dev of
        None \<Rightarrow> []
      | Some info \<Rightarrow>
          [Unregister_framebuffer, Framebuffer_release] @
          map Clear_page_reserved (vmem_pages cfg dev) @
          [Free_pages (vmem dev) (USBD480_VIDEOMEMORDER cfg dev)]) @
     [Usb_set_intfdata False, Usb_put_dev, Kfree_dev, Log ''USBD480 disconnected'']"
  by (cases "fbinfo dev") (simp_all add: usbd480_disconnect_def Let_def)

lemma work_pending_disconnect: "\<not> work_pending (usbd480_disconnect cfg dev k)"
  by (cases "fbinfo dev") (simp_all add: usbd480_disconnect_def Let_def)

lemma takeWhile_not_releases_Clear:
  "takeWhile (\<lambda>c. \<not> releases c) (map Clear_page_reserved as @ cs) =
     map Clear_page_reserved as @ takeWhile (\<lambda>c. \<not> releases c) cs"
  by (induction as) (simp_all add: releases_def)

text \<open>
  C9. The calls of \<open>usbd480_disconnect\<close> are, in this order: \<open>cancel_delayed_work_sync\<close>,
  \<open>flush_workqueue\<close>, \<open>destroy_workqueue\<close>, the removal of the four attribute files, for a
  registered framebuffer its unregistration and release and the freeing of the pages of
  the frame memory, then the release of the device and the \<open>kfree\<close> of the session. So
  the stop of the work and the teardown of the workqueue come before any call that frees
  the frame memory or the session, and when the function returns the work is neither
  pending nor running (\<open>cancel_delayed_work_sync\<close> waits for it, and nothing queues it
  again).
\<close>

theorem disconnect_stops_work_before_release:
  "(let k' = usbd480_disconnect cfg dev k; cs = new_calls k k' in
      cs =
        [Cancel_delayed_work_sync, Flush_workqueue, Destroy_workqueue,
         Device_remove_file Dev_attr_brightness, Device_remove_file Dev_attr_width,
         Device_remove_file Dev_attr_height, Device_remove_file Dev_attr_name] @
        (case fbinfo dev of
           None \<Rightarrow> []
         | Some info \<Rightarrow>
             [Unregister_framebuffer, Framebuffer_release] @
             map Clear_page_reserved (vmem_pages cfg dev) @
             [Free_pages (vmem dev) (USBD480_VIDEOMEMORDER cfg dev)]) @
        [Usb_set_intfdata False, Usb_put_dev, Kfree_dev, Log ''USBD480 disconnected''] \<and>
      prefix [Cancel_delayed_work_sync, Flush_workqueue, Destroy_workqueue]
        (takeWhile (\<lambda>c. \<not> releases c) cs) \<and>
      list_ex releases cs \<and>
      \<not> work_pending k')"
  unfolding Let_def new_calls_append [OF trace_disconnect]
  by (cases "fbinfo dev")
     (simp_all add: work_pending_disconnect releases_def takeWhile_not_releases_Clear)

end
